theory Spec2Isabelle
  imports Main
begin

section \<open>JavaScript strings\<close>

text \<open>
  A JavaScript string is modelled as a \<^typ>\<open>string\<close> holding its UTF-8 bytes. Substring search,
  prefix tests and concatenation on well-formed text agree with the same operations on UTF-16
  code units, because no UTF-8 encoding of a code point occurs inside or across the encodings
  of other code points. A value is "truthy" when it is present and, for a string, non-empty.
\<close>

definition truthy :: "string option \<Rightarrow> bool" where
  "truthy v = (case v of None \<Rightarrow> False | Some s \<Rightarrow> s \<noteq> [])"

text \<open>\<^verbatim>\<open>s.startsWith(p)\<close>\<close>

definition startsWith :: "string \<Rightarrow> string \<Rightarrow> bool" where
  "startsWith s p = (take (length p) s = p)"

text \<open>\<^verbatim>\<open>s.includes(p)\<close>\<close>

fun includes_str :: "string \<Rightarrow> string \<Rightarrow> bool" where
  "includes_str [] p = (p = [])"
| "includes_str (c # cs) p = (startsWith (c # cs) p \<or> includes_str cs p)"

text \<open>\<^verbatim>\<open>s.split(p)[0]\<close>: the part of \<open>s\<close> before the first occurrence of \<open>p\<close>, all of \<open>s\<close> when there
  is none.\<close>

fun splitHead :: "string \<Rightarrow> string \<Rightarrow> string" where
  "splitHead [] p = []"
| "splitHead (c # cs) p = (if startsWith (c # cs) p then [] else c # splitHead cs p)"

text \<open>\<^verbatim>\<open>s.replace(/p/g, '')\<close> for a literal, non-empty pattern \<open>p\<close>: one pass from the left, every
  occurrence found is dropped and the scan goes on behind it.\<close>

fun removeAll :: "string \<Rightarrow> string \<Rightarrow> string" where
  "removeAll [] p = []"
| "removeAll (c # cs) p =
     (if startsWith (c # cs) p then removeAll (drop (length p - 1) cs) p
      else c # removeAll cs p)"

text \<open>\<^verbatim>\<open>xs.join(sep)\<close>\<close>

fun join :: "string list \<Rightarrow> string \<Rightarrow> string" where
  "join [] sep = []"
| "join [x] sep = x"
| "join (x # y # ys) sep = x @ sep @ join (y # ys) sep"

text \<open>The line terminators of ECMAScript, which \<^verbatim>\<open>.\<close> in a regular expression does not match:
  LF, CR, U+2028 and U+2029.\<close>

definition lineTerminators :: "string list" where
  "lineTerminators =
     [[CHR 0x0A], [CHR 0x0D], [CHR 0xE2, CHR 0x80, CHR 0xA8], [CHR 0xE2, CHR 0x80, CHR 0xA9]]"

definition atLineTerminator :: "string \<Rightarrow> bool" where
  "atLineTerminator s = list_ex (startsWith s) lineTerminators"

text \<open>\<^verbatim>\<open>s.match(/\((.*?)\)/)\<close>: \<open>lazyGroup\<close> reads the lazy group behind an opening parenthesis up
  to the first closing one and fails at a line terminator; \<open>matchParen\<close> tries every opening
  parenthesis from the left and gives the first group that matches, \<open>None\<close> for \<^verbatim>\<open>null\<close>.\<close>

fun lazyGroup :: "string \<Rightarrow> string option" where
  "lazyGroup [] = None"
| "lazyGroup (c # cs) =
     (if c = CHR '')'' then Some []
      else if atLineTerminator (c # cs) then None
      else map_option ((#) c) (lazyGroup cs))"

fun matchParen :: "string \<Rightarrow> string option" where
  "matchParen [] = None"
| "matchParen (c # cs) =
     (if c = CHR ''(''
      then (case lazyGroup cs of Some g \<Rightarrow> Some g | None \<Rightarrow> matchParen cs)
      else matchParen cs)"

text \<open>The white space and line terminators that \<^verbatim>\<open>String.prototype.trim\<close> strips, as UTF-8.\<close>

definition whiteSpace :: "string list" where
  "whiteSpace =
     [[CHR 0x09], [CHR 0x0A], [CHR 0x0B], [CHR 0x0C], [CHR 0x0D], [CHR 0x20],
      [CHR 0xC2, CHR 0xA0], [CHR 0xE1, CHR 0x9A, CHR 0x80],
      [CHR 0xE2, CHR 0x80, CHR 0x80], [CHR 0xE2, CHR 0x80, CHR 0x81],
      [CHR 0xE2, CHR 0x80, CHR 0x82], [CHR 0xE2, CHR 0x80, CHR 0x83],
      [CHR 0xE2, CHR 0x80, CHR 0x84], [CHR 0xE2, CHR 0x80, CHR 0x85],
      [CHR 0xE2, CHR 0x80, CHR 0x86], [CHR 0xE2, CHR 0x80, CHR 0x87],
      [CHR 0xE2, CHR 0x80, CHR 0x88], [CHR 0xE2, CHR 0x80, CHR 0x89],
      [CHR 0xE2, CHR 0x80, CHR 0x8A], [CHR 0xE2, CHR 0x80, CHR 0xA8],
      [CHR 0xE2, CHR 0x80, CHR 0xA9], [CHR 0xE2, CHR 0x80, CHR 0xAF],
      [CHR 0xE2, CHR 0x81, CHR 0x9F], [CHR 0xE3, CHR 0x80, CHR 0x80],
      [CHR 0xEF, CHR 0xBB, CHR 0xBF]]"

text \<open>The length of the white space character \<open>s\<close> starts with, 0 when it starts with none.\<close>

definition leadingSpace :: "string \<Rightarrow> nat" where
  "leadingSpace s = (case filter (startsWith s) whiteSpace of [] \<Rightarrow> 0 | w # _ \<Rightarrow> length w)"

fun trimStart :: "string \<Rightarrow> string" where
  "trimStart [] = []"
| "trimStart (c # cs) =
     (if leadingSpace (c # cs) = 0 then c # cs
      else trimStart (drop (leadingSpace (c # cs) - 1) cs))"

text \<open>Trimming the end is trimming the start of the reversed string, against the reversed
  encodings.\<close>

definition trailingSpace :: "string \<Rightarrow> nat" where
  "trailingSpace r =
     (case filter (\<lambda>w. startsWith r (rev w)) whiteSpace of [] \<Rightarrow> 0 | w # _ \<Rightarrow> length w)"

fun trimStartRev :: "string \<Rightarrow> string" where
  "trimStartRev [] = []"
| "trimStartRev (c # cs) =
     (if trailingSpace (c # cs) = 0 then c # cs
      else trimStartRev (drop (trailingSpace (c # cs) - 1) cs))"

definition trimEnd :: "string \<Rightarrow> string" where
  "trimEnd s = rev (trimStartRev (rev s))"

text \<open>\<^verbatim>\<open>s.trim()\<close>\<close>

definition trim :: "string \<Rightarrow> string" where
  "trim s = trimEnd (trimStart s)"

text \<open>A non-negative integer as JavaScript prints it in a template string.\<close>

fun digits :: "nat \<Rightarrow> nat \<Rightarrow> string" where
  "digits 0 n = []"
| "digits (Suc k) n =
     (if n < 10 then [char_of (48 + n)] else digits k (n div 10) @ [char_of (48 + n mod 10)])"

definition numberToString :: "nat \<Rightarrow> string" where
  "numberToString n = digits (Suc n) n"

section \<open>Data model\<close>

text \<open>Numbers are integers: the token counts are lengths of arrays, and the two limits of an
  instance are token counts. An identifier is a string.\<close>

text \<open>Token usage as the provider reports it, or as the client estimates it.\<close>

record Usage =
  prompt_tokens :: int
  completion_tokens :: int
  total_tokens :: int
  estimated :: bool

text \<open>A frame of a streamed completion (\<^verbatim>\<open>CreateChatCompletionDeltaResponse\<close>). A field that
  may be absent is an option; an absent or empty \<^verbatim>\<open>choices\<close> is the empty list.\<close>

record Delta =
  delta_content :: "string option"
  delta_role :: "string option"

record DeltaChoice =
  dc_delta :: "Delta option"
  dc_finish_reason :: "string option"

record CreateChatCompletionDeltaResponse =
  dr_id :: "string option"
  dr_choices :: "DeltaChoice list"
  dr_usage :: "Usage option"

text \<open>The body of a buffered completion (\<^verbatim>\<open>CreateChatCompletionResponse\<close>). \<open>cr_detail\<close> is
  the \<^verbatim>\<open>detail\<close> field of an error body: a string, or an object with an optional message.\<close>

record ResponseMessage =
  rm_content :: string
  rm_role :: "string option"

datatype ErrorDetail = DetailString string | DetailObject "string option"

record CreateChatCompletionResponse =
  cr_id :: "string option"
  cr_choices :: "ResponseMessage option list"
  cr_usage :: "Usage option"
  cr_detail :: "ErrorDetail option"

datatype Detail =
  DeltaDetail CreateChatCompletionDeltaResponse
| FullDetail CreateChatCompletionResponse

text \<open>\<^verbatim>\<open>types.ChatMessage\<close>\<close>

record ChatMessage =
  role :: string
  msgId :: string
  conversationId :: "string option"
  parentMessageId :: "string option"
  msgText :: string
  msgName :: "string option"
  delta :: "string option"
  detail :: "Detail option"

text \<open>An entry of the \<^verbatim>\<open>messages\<close> array of a request: its content is a string, or the parts of
  an image question.\<close>

datatype Part = TextPart string | ImageUrlPart string

datatype Content = Text string | Parts "Part list"

record Entry =
  entry_role :: string
  entry_content :: Content
  entry_name :: "string option"

text \<open>The completion parameters that the code reads or writes; the others (temperature,
  top_p, presence_penalty) pass through to the request unread.\<close>

record CompletionParams =
  cp_model :: "string option"
  cp_max_tokens :: "int option"

text \<open>\<^verbatim>\<open>types.SendMessageOptions\<close>. \<open>opt_onProgress\<close> and \<open>opt_abortSignal\<close> say whether the
  caller supplied one.\<close>

record SendMessageOptions =
  opt_parentMessageId :: "string option"
  opt_messageId :: "string option"
  opt_conversationId :: "string option"
  opt_timeoutMs :: "nat option"
  opt_onProgress :: bool
  opt_stream :: "bool option"
  opt_completionParams :: "CompletionParams option"
  opt_systemMessage :: "string option"
  opt_name :: "string option"
  opt_abortSignal :: bool

text \<open>The fields of a \<^verbatim>\<open>ChatGPTAPI\<close> instance that \<^verbatim>\<open>sendMessage\<close> reads, over a message store
  of type \<open>'s\<close>, together with its two collaborators from other modules: \<open>tokenizer_encode\<close>
  (\<^verbatim>\<open>tokenizer.encode\<close>, of which only the number of tokens is used) and \<open>siteDomain\<close>
  (\<^verbatim>\<open>siteConfig.siteDomain\<close> of the cached configuration).\<close>

record 's ChatGPTAPI =
  api_systemMessage :: string
  api_completionParams :: CompletionParams
  api_maxModelTokens :: int
  api_maxResponseTokens :: int
  api_getMessageById :: "'s \<Rightarrow> string \<Rightarrow> ChatMessage option"
  api_upsertMessage :: "ChatMessage \<Rightarrow> 's \<Rightarrow> 's"
  tokenizer_encode :: "string \<Rightarrow> nat list"
  siteDomain :: string

text \<open>The default store is a key-value store of messages by id.\<close>

type_synonym MessageStore = "string \<rightharpoonup> ChatMessage"

definition defaultGetMessageById :: "MessageStore \<Rightarrow> string \<Rightarrow> ChatMessage option" where
  "defaultGetMessageById store i = store i"

definition defaultUpsertMessage :: "ChatMessage \<Rightarrow> MessageStore \<Rightarrow> MessageStore" where
  "defaultUpsertMessage message store = store(msgId message \<mapsto> message)"

text \<open>What a call can fail with: a \<^verbatim>\<open>TypeError\<close> of the runtime, the \<^verbatim>\<open>ChatGPTError\<close> of a
  non-success status (message, status code, status text), the plain \<^verbatim>\<open>Error\<close> of a body without
  choices, a body or frame that is not JSON, and whatever the transport itself threw.\<close>

datatype error =
  TypeError
| ChatGPTError string nat string
| Error string
| SyntaxError
| TransportFailure

section \<open>The context builder\<close>

definition newline :: string where
  "newline = [CHR 0x0A]"

definition USER_LABEL_DEFAULT :: string where
  "USER_LABEL_DEFAULT = ''User''"

definition ASSISTANT_LABEL_DEFAULT :: string where
  "ASSISTANT_LABEL_DEFAULT = ''ChatGPT''"

text \<open>The marker of an image question, \<^verbatim>\<open>![...]\<close> around fifteen Chinese characters.\<close>

definition imageMarker :: string where
  "imageMarker = ''!['' @
     [CHR 0xE4, CHR 0xBB, CHR 0x8E, CHR 0xE6, CHR 0x84, CHR 0x9F, CHR 0xE5, CHR 0x8F, CHR 0xB9,
      CHR 0xE5, CHR 0x8F, CHR 0xB7, CHR 0xE5, CHR 0xBC, CHR 0x80, CHR 0xE5, CHR 0xA7, CHR 0x8B,
      CHR 0xE4, CHR 0xB8, CHR 0xBA, CHR 0xE8, CHR 0xAF, CHR 0x86, CHR 0xE5, CHR 0x9B, CHR 0xBE,
      CHR 0xE6, CHR 0xA0, CHR 0x87, CHR 0xE5, CHR 0xBF, CHR 0x97, CHR 0xE8, CHR 0xAF, CHR 0xB7,
      CHR 0xE5, CHR 0x8B, CHR 0xBF, CHR 0xE4, CHR 0xBF, CHR 0xAE, CHR 0xE6, CHR 0x94, CHR 0xB9]
     @ '']''"

text \<open>\<^verbatim>\<open>_getTokenCount\<close>\<close>

definition getTokenCount :: "'s ChatGPTAPI \<Rightarrow> string \<Rightarrow> int" where
  "getTokenCount api t = int (length (tokenizer_encode api (removeAll t ''<|endoftext|>'')))"

text \<open>A content inside a template string: a string as it is, an array of objects as
  \<^verbatim>\<open>[object Object]\<close> per element, separated by commas.\<close>

fun contentToString :: "Content \<Rightarrow> string" where
  "contentToString (Text s) = s"
| "contentToString (Parts ps) = join (map (\<lambda>_. ''[object Object]'') ps) '',''"

text \<open>The body of the \<^verbatim>\<open>reduce\<close>, and the prompt that the entries are flattened to.\<close>

definition promptPiece :: "Entry \<Rightarrow> string" where
  "promptPiece message =
     (if entry_role message = ''system''
      then ''Instructions:'' @ newline @ contentToString (entry_content message)
      else if entry_role message = ''user''
      then USER_LABEL_DEFAULT @ '':'' @ newline @ contentToString (entry_content message)
      else ASSISTANT_LABEL_DEFAULT @ '':'' @ newline @ contentToString (entry_content message))"

definition buildPrompt :: "Entry list \<Rightarrow> string" where
  "buildPrompt nextMessages = join (map promptPiece nextMessages) (newline @ newline)"

text \<open>The entry that a fetched parent message becomes.\<close>

definition parentEntry :: "ChatMessage \<Rightarrow> Entry" where
  "parentEntry parentMessage =
     \<lparr>entry_role = (if role parentMessage \<noteq> [] then role parentMessage else ''user''),
      entry_content = Text (msgText parentMessage),
      entry_name = msgName parentMessage\<rparr>"

text \<open>
  The \<^verbatim>\<open>do ... while (true)\<close> loop. Its state is \<open>messages\<close> and \<open>numTokens\<close> (the last accepted
  sequence and its count), \<open>nextMessages\<close> (the attempt) and \<open>parentId\<close> (the variable
  \<^verbatim>\<open>parentMessageId\<close>). Nothing in the source bounds the walk along the parent links, so the
  loop takes fuel, one unit per iteration, and \<open>None\<close> says that the fuel ran out before a
  \<^verbatim>\<open>break\<close>.
\<close>

fun buildLoop ::
  "nat \<Rightarrow> (string \<Rightarrow> int) \<Rightarrow> (string \<Rightarrow> ChatMessage option) \<Rightarrow> int \<Rightarrow> nat \<Rightarrow>
   Entry list \<Rightarrow> int \<Rightarrow> Entry list \<Rightarrow> string option \<Rightarrow> (Entry list \<times> int) option" where
  "buildLoop 0 count getById maxNumTokens systemMessageOffset
     messages numTokens nextMessages parentId = None"
| "buildLoop (Suc fuel) count getById maxNumTokens systemMessageOffset
     messages numTokens nextMessages parentId =
     (let prompt = buildPrompt nextMessages;
          nextNumTokensEstimate = count prompt;
          isValidPrompt = (nextNumTokensEstimate \<le> maxNumTokens)
      in if prompt \<noteq> [] \<and> \<not> isValidPrompt then Some (messages, numTokens)
         else if \<not> isValidPrompt then Some (nextMessages, nextNumTokensEstimate)
         else if \<not> truthy parentId then Some (nextMessages, nextNumTokensEstimate)
         else (case getById (the parentId) of
                 None \<Rightarrow> Some (nextMessages, nextNumTokensEstimate)
               | Some parentMessage \<Rightarrow>
                   buildLoop fuel count getById maxNumTokens systemMessageOffset
                     nextMessages nextNumTokensEstimate
                     (take systemMessageOffset nextMessages @ [parentEntry parentMessage]
                        @ drop systemMessageOffset nextMessages)
                     (parentMessageId parentMessage)))"

text \<open>The new user entry. A text with the image marker needs \<^verbatim>\<open>opts.completionParams\<close> to write
  the model to, and a parenthesis group to read the image path from; each is dereferenced
  unchecked, a \<^verbatim>\<open>TypeError\<close> when absent. The result is the content of the entry, \<open>imgPath\<close> and
  the options with the model written.\<close>

definition userContent ::
  "'s ChatGPTAPI \<Rightarrow> string \<Rightarrow> SendMessageOptions \<Rightarrow>
   error + (Content \<times> string \<times> SendMessageOptions)" where
  "userContent api t opts =
     (if includes_str t imageMarker
      then (case opt_completionParams opts of
              None \<Rightarrow> Inl TypeError
            | Some cp \<Rightarrow>
                (let opts' = opts\<lparr>opt_completionParams :=
                                   Some (cp\<lparr>cp_model := Some ''gpt-4-vision-preview''\<rparr>)\<rparr>;
                     beforePart = splitHead t imageMarker
                 in case matchParen t of
                      None \<Rightarrow> Inl TypeError
                    | Some afterPart \<Rightarrow>
                        (let imgPath = imageMarker @ ''('' @ afterPart @ '')'';
                             imgUrlStr = (if \<not> startsWith afterPart ''http''
                                          then siteDomain api @ afterPart else afterPart)
                         in Inr (Parts [TextPart beforePart, ImageUrlPart imgUrlStr],
                                 imgPath, opts'))))
      else Inr (Text t, [], opts))"

record BuildResult =
  messages :: "Entry list"
  maxTokens :: int
  numTokens :: int
  imgPath :: string

text \<open>The entries that the loop starts from: the system entry when the system message (the
  call's, else the instance's) is not empty, and behind it the new user entry when the text is
  not empty.\<close>

definition systemEntries :: "'s ChatGPTAPI \<Rightarrow> SendMessageOptions \<Rightarrow> Entry list" where
  "systemEntries api opts =
     (let systemMessage =
            (case opt_systemMessage opts of None \<Rightarrow> api_systemMessage api | Some s \<Rightarrow> s)
      in if systemMessage \<noteq> []
         then [\<lparr>entry_role = ''system'', entry_content = Text systemMessage,
                 entry_name = None\<rparr>]
         else [])"

definition userEntry :: "Content \<Rightarrow> SendMessageOptions \<Rightarrow> Entry" where
  "userEntry c opts = \<lparr>entry_role = ''user'', entry_content = c, entry_name = opt_name opts\<rparr>"

definition newTurn :: "string \<Rightarrow> Content \<Rightarrow> SendMessageOptions \<Rightarrow> Entry list" where
  "newTurn t c opts = (if t \<noteq> [] then [userEntry c opts] else [])"

text \<open>The response budget, \<^verbatim>\<open>Math.max(1, Math.min(maxModelTokens - numTokens,
  maxResponseTokens))\<close>.\<close>

definition responseBudget :: "'s ChatGPTAPI \<Rightarrow> int \<Rightarrow> int" where
  "responseBudget api n =
     max 1 (min (api_maxModelTokens api - n) (api_maxResponseTokens api))"

text \<open>\<^verbatim>\<open>_buildMessages\<close>, on the store \<open>st\<close> as it is when the call is made.\<close>

definition buildMessages ::
  "nat \<Rightarrow> 's ChatGPTAPI \<Rightarrow> 's \<Rightarrow> string \<Rightarrow> SendMessageOptions \<Rightarrow>
   (error + (BuildResult \<times> SendMessageOptions)) option" where
  "buildMessages fuel api st t opts =
     (let maxNumTokens = api_maxModelTokens api - api_maxResponseTokens api;
          messages0 = systemEntries api opts;
          systemMessageOffset = length messages0
      in case userContent api t opts of
           Inl e \<Rightarrow> Some (Inl e)
         | Inr (c, img, opts') \<Rightarrow>
             (let nextMessages = messages0 @ newTurn t c opts
              in case buildLoop fuel (getTokenCount api) (api_getMessageById api st)
                        maxNumTokens systemMessageOffset messages0 0 nextMessages
                        (opt_parentMessageId opts) of
                   None \<Rightarrow> None
                 | Some (ms, n) \<Rightarrow>
                     Some (Inr (\<lparr>messages = ms, maxTokens = responseBudget api n,
                                  numTokens = n, imgPath = img\<rparr>, opts'))))"

section \<open>The exchange with the remote service\<close>

text \<open>The body of the request. The spread of the two parameter objects behind \<^verbatim>\<open>max_tokens\<close>
  lets either of them override it, the per-call object last.\<close>

record Request =
  req_max_tokens :: int
  req_model :: "string option"
  req_messages :: "Entry list"
  req_stream :: bool
  req_signal :: bool

text \<open>What the transport answers. \<^verbatim>\<open>fetch\<close> throws or gives a response, whose body is read as
  text (\<open>res_text\<close>) or as JSON (\<open>res_json\<close>, \<open>None\<close> when it is not JSON). \<^verbatim>\<open>fetchSSE\<close> hands the
  data of each event to \<^verbatim>\<open>onMessage\<close> in order and then ends, or fails. The data of an event is
  the sentinel \<^verbatim>\<open>[DONE]\<close>, a frame that \<^verbatim>\<open>JSON.parse\<close> reads, or \<open>Malformed\<close>: text on which the
  \<^verbatim>\<open>try\<close> block throws before it touches the assistant message.\<close>

record HttpResponse =
  res_ok :: bool
  res_status :: nat
  res_statusText :: string
  res_text :: string
  res_json :: "CreateChatCompletionResponse option"

datatype FetchOutcome = FetchThrows | FetchResponse HttpResponse

datatype SSEData = Done | Frame CreateChatCompletionDeltaResponse | Malformed

record Transport =
  fetch :: "Request \<Rightarrow> FetchOutcome"
  fetchSSE :: "Request \<Rightarrow> SSEData list \<times> bool"

text \<open>A promise is settled once: the first \<^verbatim>\<open>resolve\<close> or \<^verbatim>\<open>reject\<close> stands, a later one does
  nothing.\<close>

datatype Settlement = Resolved ChatMessage | Rejected error

definition settle :: "Settlement option \<Rightarrow> Settlement \<Rightarrow> Settlement option" where
  "settle cur new = (case cur of None \<Rightarrow> Some new | Some old \<Rightarrow> Some old)"

text \<open>The state that the streaming callback works on: the assistant message \<^verbatim>\<open>result\<close>, the
  promise, and the messages handed to \<^verbatim>\<open>onProgress\<close> so far.\<close>

record StreamState =
  result :: ChatMessage
  settled :: "Settlement option"
  progress :: "ChatMessage list"

text \<open>\<^verbatim>\<open>onMessage\<close>. Reading \<^verbatim>\<open>delta.content\<close> of a choice without a delta throws inside the
  \<^verbatim>\<open>try\<close>, after the id was written; the \<^verbatim>\<open>catch\<close> rejects.\<close>

definition onMessage :: "string \<Rightarrow> bool \<Rightarrow> SSEData \<Rightarrow> StreamState \<Rightarrow> StreamState" where
  "onMessage img onProgress data s =
     (case data of
        Done \<Rightarrow>
          (let r = (result s)\<lparr>msgText := trim (msgText (result s))\<rparr>
           in s\<lparr>result := r, settled := settle (settled s) (Resolved r)\<rparr>)
      | Malformed \<Rightarrow> s\<lparr>settled := settle (settled s) (Rejected SyntaxError)\<rparr>
      | Frame response \<Rightarrow>
          (let r1 = (if truthy (dr_id response)
                     then (result s)\<lparr>msgId := the (dr_id response)\<rparr> else result s)
           in case dr_choices response of
                [] \<Rightarrow> s\<lparr>result := r1\<rparr>
              | choice # _ \<Rightarrow>
                  (case dc_delta choice of
                     None \<Rightarrow> s\<lparr>result := r1, settled := settle (settled s) (Rejected TypeError)\<rparr>
                   | Some d \<Rightarrow>
                       (let r2 = r1\<lparr>delta := delta_content d\<rparr>;
                            r3 = (if truthy (delta_content d)
                                  then r2\<lparr>msgText := msgText r2 @ the (delta_content d)\<rparr>
                                  else if dc_finish_reason choice = Some ''stop''
                                  then r2\<lparr>msgText := msgText r2 @ img\<rparr>
                                  else r2);
                            r4 = (if truthy (delta_role d)
                                  then r3\<lparr>role := the (delta_role d)\<rparr> else r3);
                            r5 = r4\<lparr>detail := Some (DeltaDetail response)\<rparr>
                        in s\<lparr>result := r5,
                             progress := (if onProgress then progress s @ [r5]
                                          else progress s)\<rparr>))))"

text \<open>The streaming branch: every event in order, then the \<^verbatim>\<open>catch\<close> of a failed stream.\<close>

definition runStream ::
  "string \<Rightarrow> bool \<Rightarrow> SSEData list \<times> bool \<Rightarrow> ChatMessage \<Rightarrow> StreamState" where
  "runStream img onProgress answer placeholder =
     (let s = foldl (\<lambda>s data. onMessage img onProgress data s)
                \<lparr>result = placeholder, settled = None, progress = []\<rparr> (fst answer)
      in if snd answer then s\<lparr>settled := settle (settled s) (Rejected TransportFailure)\<rparr>
         else s)"

text \<open>The text of the \<^verbatim>\<open>Error\<close> for a body without choices:
  \<^verbatim>\<open>res?.detail?.message || res?.detail || 'unknown'\<close> in a template string.\<close>

definition errorDetailText :: "ErrorDetail option \<Rightarrow> string" where
  "errorDetailText d =
     (case d of
        None \<Rightarrow> ''unknown''
      | Some (DetailString s) \<Rightarrow> (if s \<noteq> [] then s else ''unknown'')
      | Some (DetailObject m) \<Rightarrow> (if truthy m then the m else ''[object Object]''))"

text \<open>The buffered branch.\<close>

definition runBuffered :: "FetchOutcome \<Rightarrow> ChatMessage \<Rightarrow> Settlement" where
  "runBuffered answer placeholder =
     (case answer of
        FetchThrows \<Rightarrow> Rejected TransportFailure
      | FetchResponse res \<Rightarrow>
          if \<not> res_ok res
          then Rejected (ChatGPTError
                 (''OpenAI error '' @
                    (if res_status res \<noteq> 0 then numberToString (res_status res)
                     else res_statusText res) @ '': '' @ res_text res)
                 (res_status res) (res_statusText res))
          else (case res_json res of
                  None \<Rightarrow> Rejected SyntaxError
                | Some response \<Rightarrow>
                    (let r1 = (if truthy (cr_id response)
                               then placeholder\<lparr>msgId := the (cr_id response)\<rparr>
                               else placeholder)
                     in case cr_choices response of
                          [] \<Rightarrow> Rejected (Error (''OpenAI error: '' @
                                  errorDetailText (cr_detail response)))
                        | None # _ \<Rightarrow> Rejected TypeError
                        | Some message # _ \<Rightarrow>
                            (let r2 = r1\<lparr>msgText := rm_content message\<rparr>;
                                 r3 = (if truthy (rm_role message)
                                       then r2\<lparr>role := the (rm_role message)\<rparr> else r2)
                             in Resolved (r3\<lparr>detail := Some (FullDetail response)\<rparr>)))))"

text \<open>The first step of the \<^verbatim>\<open>then\<close>: a detail without usage gets the estimate.\<close>

definition detailUsage :: "Detail \<Rightarrow> Usage option" where
  "detailUsage d = (case d of DeltaDetail r \<Rightarrow> dr_usage r | FullDetail r \<Rightarrow> cr_usage r)"

definition setDetailUsage :: "Usage \<Rightarrow> Detail \<Rightarrow> Detail" where
  "setDetailUsage u d =
     (case d of DeltaDetail r \<Rightarrow> DeltaDetail (r\<lparr>dr_usage := Some u\<rparr>)
              | FullDetail r \<Rightarrow> FullDetail (r\<lparr>cr_usage := Some u\<rparr>))"

definition estimateUsage :: "'s ChatGPTAPI \<Rightarrow> int \<Rightarrow> ChatMessage \<Rightarrow> ChatMessage" where
  "estimateUsage api promptTokens message =
     (case detail message of
        None \<Rightarrow> message
      | Some d \<Rightarrow>
          (case detailUsage d of
             Some _ \<Rightarrow> message
           | None \<Rightarrow>
               (let completionTokens = getTokenCount api (msgText message)
                in message\<lparr>detail := Some (setDetailUsage
                     \<lparr>prompt_tokens = promptTokens, completion_tokens = completionTokens,
                      total_tokens = promptTokens + completionTokens, estimated = True\<rparr> d)\<rparr>)))"

text \<open>How a call ends: fulfilled with the assistant message, rejected, or never settled (a
  stream that ends without the sentinel and without an error).\<close>

datatype Outcome = Fulfilled ChatMessage | Failed error | Pending

record 's SendResult =
  outcome :: Outcome
  store :: 's
  sent :: "Request option"
  reported :: "ChatMessage list"

text \<open>The two messages of an exchange as \<^verbatim>\<open>sendMessage\<close> creates them.\<close>

definition userMessage :: "string \<Rightarrow> string \<Rightarrow> SendMessageOptions \<Rightarrow> ChatMessage" where
  "userMessage messageId t opts =
     \<lparr>role = ''user'', msgId = messageId, conversationId = opt_conversationId opts,
      parentMessageId = opt_parentMessageId opts, msgText = t, msgName = None,
      delta = None, detail = None\<rparr>"

definition placeholderMessage :: "string \<Rightarrow> string \<Rightarrow> SendMessageOptions \<Rightarrow> ChatMessage" where
  "placeholderMessage resultId messageId opts =
     \<lparr>role = ''assistant'', msgId = resultId, conversationId = opt_conversationId opts,
      parentMessageId = Some messageId, msgText = [], msgName = None,
      delta = None, detail = None\<rparr>"

text \<open>\<^verbatim>\<open>messageId = uuidv4()\<close> when the caller gave none; \<open>uuids\<close> are the successive results of
  \<^verbatim>\<open>uuidv4()\<close> in this call.\<close>

definition messageIdOf :: "(nat \<Rightarrow> string) \<Rightarrow> SendMessageOptions \<Rightarrow> string" where
  "messageIdOf uuids opts = (case opt_messageId opts of None \<Rightarrow> uuids 0 | Some i \<Rightarrow> i)"

definition resultIdOf :: "(nat \<Rightarrow> string) \<Rightarrow> SendMessageOptions \<Rightarrow> string" where
  "resultIdOf uuids opts = (case opt_messageId opts of None \<Rightarrow> uuids 1 | Some _ \<Rightarrow> uuids 0)"

text \<open>The call makes a cancellation signal of its own when a timeout is set and the caller
  gave no signal.\<close>

definition ownAbortController :: "SendMessageOptions \<Rightarrow> bool" where
  "ownAbortController opts =
     ((case opt_timeoutMs opts of None \<Rightarrow> False | Some ms \<Rightarrow> ms \<noteq> 0) \<and> \<not> opt_abortSignal opts)"

definition requestBody ::
  "'s ChatGPTAPI \<Rightarrow> BuildResult \<Rightarrow> SendMessageOptions \<Rightarrow> bool \<Rightarrow> bool \<Rightarrow> Request" where
  "requestBody api built opts stream signal =
     (let own = (case opt_completionParams opts of
                   None \<Rightarrow> \<lparr>cp_model = None, cp_max_tokens = None\<rparr> | Some cp \<Rightarrow> cp)
      in \<lparr>req_max_tokens =
             (case cp_max_tokens own of
                Some v \<Rightarrow> v
              | None \<Rightarrow> (case cp_max_tokens (api_completionParams api) of
                           Some v \<Rightarrow> v | None \<Rightarrow> maxTokens built)),
           req_model =
             (case cp_model own of
                Some v \<Rightarrow> Some v | None \<Rightarrow> cp_model (api_completionParams api)),
           req_messages = messages built,
           req_stream = stream,
           req_signal = signal\<rparr>)"

text \<open>The executor of the response promise: the streaming branch or the buffered one, by the
  \<^verbatim>\<open>stream\<close> flag of the request.\<close>

definition dispatch ::
  "Transport \<Rightarrow> Request \<Rightarrow> string \<Rightarrow> bool \<Rightarrow> ChatMessage \<Rightarrow> StreamState" where
  "dispatch transport body img onProgress placeholder =
     (if req_stream body
      then runStream img onProgress (fetchSSE transport body) placeholder
      else \<lparr>result = placeholder,
            settled = Some (runBuffered (fetch transport body) placeholder),
            progress = []\<rparr>)"

text \<open>
  \<^verbatim>\<open>sendMessage\<close>, on the store \<open>st\<close>: build the context, send the request in the chosen mode,
  and in the \<^verbatim>\<open>then\<close> of a resolved exchange estimate the usage and write the user message and
  the assistant message, in this order. A failure of the builder leaves before any request; a
  rejected or unsettled exchange never reaches the \<^verbatim>\<open>then\<close>. The result is \<open>None\<close> when the
  builder runs out of fuel. The race of \<^verbatim>\<open>pTimeout\<close> against a timer is not part of the model:
  this is the call whose timer does not fire first.
\<close>

definition sendMessage ::
  "nat \<Rightarrow> 's ChatGPTAPI \<Rightarrow> Transport \<Rightarrow> (nat \<Rightarrow> string) \<Rightarrow> 's \<Rightarrow> string \<Rightarrow>
   SendMessageOptions \<Rightarrow> 's SendResult option" where
  "sendMessage fuel api transport uuids st t opts =
     (let messageId = messageIdOf uuids opts;
          stream = (case opt_stream opts of None \<Rightarrow> opt_onProgress opts | Some b \<Rightarrow> b);
          signal = (opt_abortSignal opts \<or> ownAbortController opts);
          latestQuestion = userMessage messageId t opts
      in case buildMessages fuel api st t opts of
           None \<Rightarrow> None
         | Some (Inl e) \<Rightarrow>
             Some \<lparr>outcome = Failed e, store = st, sent = None, reported = []\<rparr>
         | Some (Inr (built, opts')) \<Rightarrow>
             (let placeholder = placeholderMessage (resultIdOf uuids opts) messageId opts;
                  body = requestBody api built opts' stream signal;
                  final = dispatch transport body (imgPath built) (opt_onProgress opts)
                            placeholder
              in case settled final of
                   Some (Resolved message) \<Rightarrow>
                     (let message' = estimateUsage api (numTokens built) message
                      in Some \<lparr>outcome = Fulfilled message',
                               store = api_upsertMessage api message'
                                         (api_upsertMessage api latestQuestion st),
                               sent = Some body, reported = progress final\<rparr>)
                 | Some (Rejected e) \<Rightarrow>
                     Some \<lparr>outcome = Failed e, store = st, sent = Some body,
                           reported = progress final\<rparr>
                 | None \<Rightarrow>
                     Some \<lparr>outcome = Pending, store = st, sent = Some body,
                           reported = progress final\<rparr>))"

section \<open>Example instances\<close>

text \<open>A tokenizer of one token per byte, and an instance on the default store with room for
  3000 prompt tokens.\<close>

definition byteTokenizer :: "string \<Rightarrow> nat list" where
  "byteTokenizer s = map of_char s"

definition exampleApi :: "MessageStore ChatGPTAPI" where
  "exampleApi =
     \<lparr>api_systemMessage = ''S'',
      api_completionParams = \<lparr>cp_model = Some ''gpt-3.5-turbo'', cp_max_tokens = None\<rparr>,
      api_maxModelTokens = 4000, api_maxResponseTokens = 1000,
      api_getMessageById = defaultGetMessageById, api_upsertMessage = defaultUpsertMessage,
      tokenizer_encode = byteTokenizer, siteDomain = ''https://example.org''\<rparr>"

text \<open>The same instance with a ceiling of \<open>10 - 5 = 5\<close> tokens.\<close>

definition tightApi :: "MessageStore ChatGPTAPI" where
  "tightApi = exampleApi\<lparr>api_maxModelTokens := 10, api_maxResponseTokens := 5\<rparr>"

definition noOptions :: SendMessageOptions where
  "noOptions =
     \<lparr>opt_parentMessageId = None, opt_messageId = None, opt_conversationId = None,
      opt_timeoutMs = None, opt_onProgress = False, opt_stream = None,
      opt_completionParams = None, opt_systemMessage = None, opt_name = None,
      opt_abortSignal = False\<rparr>"

text \<open>What the builder returns for three small questions: \<open>hello\<close> and \<open>hell\<close> on the roomy
  instance, \<open>hello\<close> on the tight one.\<close>

definition systemEntryS :: Entry where
  "systemEntryS = \<lparr>entry_role = ''system'', entry_content = Text ''S'', entry_name = None\<rparr>"

definition helloBuilt :: BuildResult where
  "helloBuilt =
     \<lparr>messages = [systemEntryS,
                  \<lparr>entry_role = ''user'', entry_content = Text ''hello'', entry_name = None\<rparr>],
      maxTokens = 1000, numTokens = 28, imgPath = []\<rparr>"

definition hellBuilt :: BuildResult where
  "hellBuilt =
     \<lparr>messages = [systemEntryS,
                  \<lparr>entry_role = ''user'', entry_content = Text ''hell'', entry_name = None\<rparr>],
      maxTokens = 1000, numTokens = 27, imgPath = []\<rparr>"

definition tightBuilt :: BuildResult where
  "tightBuilt = \<lparr>messages = [systemEntryS], maxTokens = 5, numTokens = 0, imgPath = []\<rparr>"

text \<open>A store with a conversation of two earlier turns, the question \<open>q1\<close> and its answer
  \<open>a1\<close>.\<close>

definition earlierQuestion :: ChatMessage where
  "earlierQuestion =
     \<lparr>role = ''user'', msgId = ''q1'', conversationId = None, parentMessageId = None,
      msgText = ''one?'', msgName = None, delta = None, detail = None\<rparr>"

definition earlierAnswer :: ChatMessage where
  "earlierAnswer =
     \<lparr>role = ''assistant'', msgId = ''a1'', conversationId = None,
      parentMessageId = Some ''q1'', msgText = ''1'', msgName = None, delta = None,
      detail = None\<rparr>"

definition twoTurnStore :: MessageStore where
  "twoTurnStore = [''q1'' \<mapsto> earlierQuestion, ''a1'' \<mapsto> earlierAnswer]"

text \<open>Successive results of \<^verbatim>\<open>uuidv4()\<close>, and transports that answer every request alike: with
  a stream of the fragments \<open>Hel\<close> and \<open>lo\<close> and the sentinel, or with one buffered response.\<close>

definition exampleUuids :: "nat \<Rightarrow> string" where
  "exampleUuids n = ''uuid-'' @ numberToString n"

definition fragmentFrame :: "string \<Rightarrow> SSEData" where
  "fragmentFrame f =
     Frame \<lparr>dr_id = Some ''cmpl-1'',
            dr_choices = [\<lparr>dc_delta = Some \<lparr>delta_content = Some f, delta_role = None\<rparr>,
                           dc_finish_reason = None\<rparr>],
            dr_usage = None\<rparr>"

definition helloStream :: Transport where
  "helloStream =
     \<lparr>fetch = (\<lambda>_. FetchThrows),
      fetchSSE = (\<lambda>_. ([fragmentFrame ''Hel'', fragmentFrame ''lo'', Done], False))\<rparr>"


definition bufferedTransport :: "HttpResponse \<Rightarrow> Transport" where
  "bufferedTransport res = \<lparr>fetch = (\<lambda>_. FetchResponse res), fetchSSE = (\<lambda>_. ([], True))\<rparr>"

definition notFound :: HttpResponse where
  "notFound =
     \<lparr>res_ok = False, res_status = 404, res_statusText = ''Not Found'',
      res_text = ''no such model'', res_json = None\<rparr>"

definition okResponse :: "CreateChatCompletionResponse \<Rightarrow> HttpResponse" where
  "okResponse r =
     \<lparr>res_ok = True, res_status = 200, res_statusText = ''OK'', res_text = [],
      res_json = Some r\<rparr>"

definition noChoices :: CreateChatCompletionResponse where
  "noChoices =
     \<lparr>cr_id = None, cr_choices = [], cr_usage = None,
      cr_detail = Some (DetailObject (Some ''overloaded''))\<rparr>"

definition oneChoice :: CreateChatCompletionResponse where
  "oneChoice =
     \<lparr>cr_id = Some ''cmpl-2'',
      cr_choices = [Some \<lparr>rm_content = ''Hi there'', rm_role = Some ''assistant''\<rparr>],
      cr_usage = Some \<lparr>prompt_tokens = 9, completion_tokens = 2, total_tokens = 11,
                        estimated = False\<rparr>,
      cr_detail = None\<rparr>"

text \<open>The question \<open>hello\<close> asked with a progress callback: the request that goes out, and the
  assistant message at the end of the stream of \<open>helloStream\<close>.\<close>

definition streamOptions :: SendMessageOptions where
  "streamOptions = noOptions\<lparr>opt_onProgress := True\<rparr>"

definition helloRequest :: "bool \<Rightarrow> Request" where
  "helloRequest stream =
     \<lparr>req_max_tokens = 1000, req_model = Some ''gpt-3.5-turbo'',
      req_messages = messages helloBuilt, req_stream = stream, req_signal = False\<rparr>"

definition helloAnswer :: ChatMessage where
  "helloAnswer =
     \<lparr>role = ''assistant'', msgId = ''cmpl-1'', conversationId = None,
      parentMessageId = Some ''uuid-0'', msgText = ''Hello'', msgName = None,
      delta = Some ''lo'',
      detail = Some (DeltaDetail
        \<lparr>dr_id = Some ''cmpl-1'',
         dr_choices = [\<lparr>dc_delta = Some \<lparr>delta_content = Some ''lo'', delta_role = None\<rparr>,
                        dc_finish_reason = None\<rparr>],
         dr_usage = Some \<lparr>prompt_tokens = 28, completion_tokens = 5, total_tokens = 33,
                           estimated = True\<rparr>\<rparr>)\<rparr>"

text \<open>The assistant message at the end of the buffered exchange that answers \<open>oneChoice\<close>.\<close>

definition hiAnswer :: ChatMessage where
  "hiAnswer =
     \<lparr>role = ''assistant'', msgId = ''cmpl-2'', conversationId = None,
      parentMessageId = Some ''uuid-0'', msgText = ''Hi there'', msgName = None,
      delta = None, detail = Some (FullDetail oneChoice)\<rparr>"

section \<open>Content frames\<close>


section \<open>The link of an exchange\<close>

text \<open>A state of the exchange is linked to \<open>pid\<close> when the assistant message, the message the
  promise was resolved with, and every message handed to the progress callback have \<open>pid\<close> for
  their \<open>parentMessageId\<close>.\<close>

definition linked :: "string option \<Rightarrow> StreamState \<Rightarrow> bool" where
  "linked pid s = (parentMessageId (result s) = pid
     \<and> (\<forall>m. settled s = Some (Resolved m) \<longrightarrow> parentMessageId m = pid)
     \<and> (\<forall>m\<in>set (progress s). parentMessageId m = pid))"

section \<open>Ancestor chains\<close>

text \<open>The messages reached from \<open>parentId\<close> along the parent links of a store, newest first, up
  to the first link that is absent, empty or not in the store.\<close>

fun ancestorChain ::
  "(string \<Rightarrow> ChatMessage option) \<Rightarrow> string option \<Rightarrow> ChatMessage list \<Rightarrow> bool" where
  "ancestorChain getById parentId [] =
     (if truthy parentId then getById (the parentId) = None else True)"
| "ancestorChain getById parentId (m # ms) =
     (truthy parentId \<and> getById (the parentId) = Some m
      \<and> ancestorChain getById (parentMessageId m) ms)"

section \<open>The loop of the builder\<close>

text \<open>More fuel does not change what the loop returns.\<close>

lemma buildLoop_more_fuel:
  "buildLoop f c g mx off ms n nx pid = Some r \<Longrightarrow>
   buildLoop (f + k) c g mx off ms n nx pid = Some r"
proof (induction f arbitrary: ms n nx pid)
  case 0
  then show ?case by simp
next
  case (Suc f)
  then show ?case
    by (auto simp: Let_def split: if_splits option.splits)
qed



text \<open>A first attempt over the ceiling ends the loop with the state it started from.\<close>

lemma buildLoop_rejected:
  assumes "buildPrompt nx \<noteq> []" and "\<not> c (buildPrompt nx) \<le> mx"
  shows "buildLoop (Suc f) c g mx off ms n nx pid = Some (ms, n)"
  using assms by (simp add: Let_def)

text \<open>With every attempt within the ceiling the loop walks a whole chain, placing each
  ancestor behind the first \<open>off\<close> entries.\<close>

lemma buildLoop_chain:
  assumes "ancestorChain g pid as"
    and "length pre = off"
    and "\<forall>k\<le>length as. c (buildPrompt (pre @ map parentEntry (rev (take k as)) @ suf)) \<le> mx"
    and "length as < f"
  shows "buildLoop f c g mx off ms n (pre @ suf) pid =
         Some (pre @ map parentEntry (rev as) @ suf,
               c (buildPrompt (pre @ map parentEntry (rev as) @ suf)))"
  using assms
proof (induction as arbitrary: f ms n suf pid)
  case Nil
  then obtain f' where f: "f = Suc f'" by (cases f) auto
  from Nil have v: "c (buildPrompt (pre @ suf)) \<le> mx" by simp
  from Nil(1) show ?case unfolding f using v
    by (auto simp: Let_def split: if_splits)
next
  case (Cons a as)
  then obtain f' where f: "f = Suc f'" by (cases f) auto
  from Cons.prems(3) have v: "c (buildPrompt (pre @ suf)) \<le> mx"
    by (metis append_Nil le0 list.simps(8) rev.simps(1) take_0)
  have step: "\<forall>k\<le>length as. c (buildPrompt (pre @ map parentEntry (rev (take k as)) @ parentEntry a # suf)) \<le> mx"
  proof (intro allI impI)
    fix k assume "k \<le> length as"
    then have "Suc k \<le> length (a # as)" by simp
    with Cons.prems(3) have "c (buildPrompt (pre @ map parentEntry (rev (take (Suc k) (a # as))) @ suf)) \<le> mx"
      by blast
    then show "c (buildPrompt (pre @ map parentEntry (rev (take k as)) @ parentEntry a # suf)) \<le> mx"
      by simp
  qed
  from Cons.prems(1) have t: "truthy pid" and g: "g (the pid) = Some a"
    and ch: "ancestorChain g (parentMessageId a) as" by simp_all
  from Cons.prems(4) f have lt: "length as < f'" by simp
  have "buildLoop f' c g mx off (pre @ suf) (c (buildPrompt (pre @ suf))) (pre @ parentEntry a # suf) (parentMessageId a)
        = Some (pre @ map parentEntry (rev as) @ parentEntry a # suf,
               c (buildPrompt (pre @ map parentEntry (rev as) @ parentEntry a # suf)))"
    using Cons.IH[OF ch Cons.prems(2) step lt] .
  then show ?case unfolding f using v t g Cons.prems(2)
    by (simp add: Let_def)
qed

text \<open>The loop returns once the fuel exceeds the length of the chain that the parent links
  reach, whatever the counts are.\<close>

lemma buildLoop_returns:
  assumes "ancestorChain g pid as" and "length as < f"
  shows "\<exists>r. buildLoop f c g mx off ms n nx pid = Some r"
  using assms
proof (induction as arbitrary: f ms n nx pid)
  case Nil
  then obtain f' where f: "f = Suc f'" by (cases f) auto
  from Nil(1) show ?case unfolding f
    by (auto simp: Let_def split: if_splits)
next
  case (Cons a as)
  then obtain f' where f: "f = Suc f'" by (cases f) auto
  from Cons.prems(1) have t: "truthy pid" and g: "g (the pid) = Some a"
    and ch: "ancestorChain g (parentMessageId a) as" by simp_all
  from Cons.prems(2) f have lt: "length as < f'" by simp
  show ?case unfolding f using t g Cons.IH[OF ch lt]
    by (simp add: Let_def)
qed

section \<open>The result of the builder\<close>

text \<open>A successful call of the builder, taken apart: the user content, the run of the loop
  and the budget.\<close>

lemma buildMessages_Inr:
  assumes "buildMessages fuel api st t opts = Some (Inr (r, opts'))"
  obtains c where "userContent api t opts = Inr (c, imgPath r, opts')"
    and "buildLoop fuel (getTokenCount api) (api_getMessageById api st)
           (api_maxModelTokens api - api_maxResponseTokens api) (length (systemEntries api opts))
           (systemEntries api opts) 0 (systemEntries api opts @ newTurn t c opts)
           (opt_parentMessageId opts) = Some (messages r, numTokens r)"
    and "maxTokens r = responseBudget api (numTokens r)"
  using assms
  by (auto simp: buildMessages_def Let_def split: sum.splits option.splits prod.splits)

text \<open>So does the builder, and more fuel does not change what it returns.\<close>

lemma buildMessages_returns:
  assumes "ancestorChain (api_getMessageById api st) (opt_parentMessageId opts) as"
    and "length as < fuel"
  shows "\<exists>r. buildMessages fuel api st t opts = Some r"
proof (cases "userContent api t opts")
  case (Inl e)
  then show ?thesis by (simp add: buildMessages_def Let_def)
next
  case (Inr x)
  obtain c img opts' where x: "x = (c, img, opts')" by (cases x)
  from buildLoop_returns[OF assms]
  obtain r where "buildLoop fuel (getTokenCount api) (api_getMessageById api st)
           (api_maxModelTokens api - api_maxResponseTokens api) (length (systemEntries api opts))
           (systemEntries api opts) 0 (systemEntries api opts @ newTurn t c opts)
           (opt_parentMessageId opts) = Some r"
    by blast
  with Inr x show ?thesis
    by (cases r) (simp add: buildMessages_def Let_def)
qed

lemma buildMessages_more_fuel:
  assumes "buildMessages fuel api st t opts = Some r"
  shows "buildMessages (fuel + k) api st t opts = Some r"
proof (cases "userContent api t opts")
  case (Inl e)
  with assms show ?thesis by (simp add: buildMessages_def Let_def)
next
  case (Inr x)
  obtain c img opts' where x: "x = (c, img, opts')" by (cases x)
  from assms Inr x obtain ms n where
    l: "buildLoop fuel (getTokenCount api) (api_getMessageById api st)
           (api_maxModelTokens api - api_maxResponseTokens api) (length (systemEntries api opts))
           (systemEntries api opts) 0 (systemEntries api opts @ newTurn t c opts)
           (opt_parentMessageId opts) = Some (ms, n)"
    by (auto simp: buildMessages_def Let_def split: option.splits)
  from buildLoop_more_fuel[OF l, of k] assms Inr x l show ?thesis
    by (simp add: buildMessages_def Let_def)
qed

lemma responseBudget_bounds:
  "1 \<le> responseBudget api n"
  "1 \<le> api_maxResponseTokens api \<Longrightarrow> responseBudget api n \<le> api_maxResponseTokens api"
  "n \<le> n' \<Longrightarrow> responseBudget api n' \<le> responseBudget api n"
  by (simp_all add: responseBudget_def)

text \<open>
  Claim C1, at a concrete call. The instance has a ceiling of \<open>10 - 5 = 5\<close> tokens and the
  system message \<open>S\<close>; the text is \<open>hello\<close>. The minimal sequence (system entry and new user
  entry) counts 28 tokens, over the ceiling; the builder returns the system entry alone, with
  a token count of 0, and the new user entry is not in the returned sequence.
\<close>

theorem buildMessages_drops_user_turn:
  "getTokenCount tightApi (buildPrompt (systemEntries tightApi noOptions
      @ newTurn ''hello'' (Text ''hello'') noOptions))
     > api_maxModelTokens tightApi - api_maxResponseTokens tightApi
   \<and> buildMessages 1 tightApi Map.empty ''hello'' noOptions = Some (Inr (tightBuilt, noOptions))
   \<and> userEntry (Text ''hello'') noOptions \<notin> set (messages tightBuilt)
   \<and> messages tightBuilt = systemEntries tightApi noOptions"
  by code_simp

text \<open>
  Claim C2, as the code has it. For two results of the builder under one configuration, the
  response budget is at least 1, it is at most \<open>maxResponseTokens\<close> when that is at least 1,
  and the result with more used tokens does not have the larger budget.
\<close>

theorem buildMessages_budget_bounds:
  assumes "buildMessages fuel1 api st1 t1 opts1 = Some (Inr (r1, o1))"
    and "buildMessages fuel2 api st2 t2 opts2 = Some (Inr (r2, o2))"
  shows "1 \<le> maxTokens r1
       \<and> (1 \<le> api_maxResponseTokens api \<longrightarrow> maxTokens r1 \<le> api_maxResponseTokens api)
       \<and> (numTokens r1 \<le> numTokens r2 \<longrightarrow> maxTokens r2 \<le> maxTokens r1)"
proof -
  from assms(1) have m1: "maxTokens r1 = responseBudget api (numTokens r1)"
    by (rule buildMessages_Inr)
  from assms(2) have m2: "maxTokens r2 = responseBudget api (numTokens r2)"
    by (rule buildMessages_Inr)
  show ?thesis unfolding m1 m2 by (simp add: responseBudget_bounds)
qed

theorem buildMessages_budget_bounds_witness:
  "buildMessages 1 exampleApi Map.empty ''hell'' noOptions = Some (Inr (hellBuilt, noOptions))
   \<and> buildMessages 1 exampleApi Map.empty ''hello'' noOptions = Some (Inr (helloBuilt, noOptions))
   \<and> 1 \<le> api_maxResponseTokens exampleApi
   \<and> numTokens hellBuilt \<le> numTokens helloBuilt
   \<and> 1 \<le> maxTokens hellBuilt
   \<and> maxTokens hellBuilt \<le> api_maxResponseTokens exampleApi
   \<and> maxTokens helloBuilt \<le> maxTokens hellBuilt"
proof -
  have a: "buildMessages 1 exampleApi Map.empty ''hell'' noOptions
           = Some (Inr (hellBuilt, noOptions))"
    by code_simp
  have b: "buildMessages 1 exampleApi Map.empty ''hello'' noOptions
           = Some (Inr (helloBuilt, noOptions))"
    by code_simp
  have c: "1 \<le> api_maxResponseTokens exampleApi" by code_simp
  have d: "numTokens hellBuilt \<le> numTokens helloBuilt" by code_simp
  from buildMessages_budget_bounds[OF a b] a b c d show ?thesis by blast
qed

text \<open>
  Claim C2 as stated fails twice. The questions \<open>hell\<close> and \<open>hello\<close> use 27 and 28 tokens and
  both get the budget 1000, so the budget does not strictly decrease; and with
  \<open>maxResponseTokens = 0\<close> the budget is 1, above \<open>maxResponseTokens\<close>.
\<close>

theorem buildMessages_budget_counterexample:
  "buildMessages 1 exampleApi Map.empty ''hell'' noOptions = Some (Inr (hellBuilt, noOptions))
   \<and> buildMessages 1 exampleApi Map.empty ''hello'' noOptions = Some (Inr (helloBuilt, noOptions))
   \<and> numTokens hellBuilt < numTokens helloBuilt
   \<and> \<not> maxTokens helloBuilt < maxTokens hellBuilt
   \<and> buildMessages 1 (exampleApi\<lparr>api_maxResponseTokens := 0\<rparr>) Map.empty ''hello'' noOptions
       = Some (Inr (helloBuilt\<lparr>maxTokens := 1\<rparr>, noOptions))
   \<and> \<not> 1 \<le> api_maxResponseTokens (exampleApi\<lparr>api_maxResponseTokens := 0\<rparr>)"
  by code_simp




text \<open>
  Claim C4. Let the parent links from \<open>parentMessageId\<close> reach the chain \<open>ancestors\<close> (newest
  first) and let every attempt of the loop, the minimal sequence extended by the \<open>k\<close> newest
  ancestors for each \<open>k\<close> up to the length of the chain, be within the ceiling. Then the builder
  returns, with fuel beyond the length of the chain, the system entries, then all ancestors
  from the oldest to the newest, then the new user entry: each ancestor once, none lost.
\<close>

theorem buildMessages_whole_chain:
  assumes uc: "userContent api t opts = Inr (c, img, opts')"
    and chain: "ancestorChain (api_getMessageById api st) (opt_parentMessageId opts) ancestors"
    and slack: "\<forall>k\<le>length ancestors.
        getTokenCount api (buildPrompt (systemEntries api opts
            @ map parentEntry (rev (take k ancestors)) @ newTurn t c opts))
          \<le> api_maxModelTokens api - api_maxResponseTokens api"
    and fuel: "length ancestors < fuel"
  shows "buildMessages fuel api st t opts =
         Some (Inr (\<lparr>messages = systemEntries api opts @ map parentEntry (rev ancestors)
                                   @ newTurn t c opts,
                      maxTokens = responseBudget api
                        (getTokenCount api (buildPrompt (systemEntries api opts
                           @ map parentEntry (rev ancestors) @ newTurn t c opts))),
                      numTokens = getTokenCount api (buildPrompt (systemEntries api opts
                           @ map parentEntry (rev ancestors) @ newTurn t c opts)),
                      imgPath = img\<rparr>, opts'))"
proof -
  have "buildLoop fuel (getTokenCount api) (api_getMessageById api st)
          (api_maxModelTokens api - api_maxResponseTokens api) (length (systemEntries api opts))
          (systemEntries api opts) 0 (systemEntries api opts @ newTurn t c opts)
          (opt_parentMessageId opts)
        = Some (systemEntries api opts @ map parentEntry (rev ancestors) @ newTurn t c opts,
                getTokenCount api (buildPrompt (systemEntries api opts
                   @ map parentEntry (rev ancestors) @ newTurn t c opts)))"
    using chain refl slack fuel by (rule buildLoop_chain)
  then show ?thesis
    using uc by (simp add: buildMessages_def Let_def)
qed

lemma all_le_Suc: "(\<forall>k\<le>Suc n. P k) = (P (Suc n) \<and> (\<forall>k\<le>n. P k))"
  by (auto simp: le_Suc_eq)

theorem buildMessages_whole_chain_witness:
  "buildMessages 3 exampleApi twoTurnStore ''two?'' (noOptions\<lparr>opt_parentMessageId := Some ''a1''\<rparr>) =
     Some (Inr (\<lparr>messages =
                   [systemEntryS,
                    \<lparr>entry_role = ''user'', entry_content = Text ''one?'', entry_name = None\<rparr>,
                    \<lparr>entry_role = ''assistant'', entry_content = Text ''1'', entry_name = None\<rparr>,
                    \<lparr>entry_role = ''user'', entry_content = Text ''two?'', entry_name = None\<rparr>],
                  maxTokens = 1000, numTokens = 51, imgPath = []\<rparr>,
                noOptions\<lparr>opt_parentMessageId := Some ''a1''\<rparr>))"
proof -
  let ?opts = "noOptions\<lparr>opt_parentMessageId := Some ''a1''\<rparr>"
  have uc: "userContent exampleApi ''two?'' ?opts = Inr (Text ''two?'', [], ?opts)"
    by code_simp
  have chain: "ancestorChain (api_getMessageById exampleApi twoTurnStore)
                 (opt_parentMessageId ?opts) [earlierAnswer, earlierQuestion]"
    by (simp add: exampleApi_def defaultGetMessageById_def twoTurnStore_def noOptions_def
        truthy_def earlierAnswer_def earlierQuestion_def)
  have slack: "\<forall>k\<le>length [earlierAnswer, earlierQuestion].
        getTokenCount exampleApi (buildPrompt (systemEntries exampleApi ?opts
            @ map parentEntry (rev (take k [earlierAnswer, earlierQuestion]))
            @ newTurn ''two?'' (Text ''two?'') ?opts))
          \<le> api_maxModelTokens exampleApi - api_maxResponseTokens exampleApi"
  proof -
    have "getTokenCount exampleApi (buildPrompt (systemEntries exampleApi ?opts
            @ map parentEntry (rev (take 0 [earlierAnswer, earlierQuestion]))
            @ newTurn ''two?'' (Text ''two?'') ?opts))
          \<le> api_maxModelTokens exampleApi - api_maxResponseTokens exampleApi"
      by code_simp
    moreover have "getTokenCount exampleApi (buildPrompt (systemEntries exampleApi ?opts
            @ map parentEntry (rev (take (Suc 0) [earlierAnswer, earlierQuestion]))
            @ newTurn ''two?'' (Text ''two?'') ?opts))
          \<le> api_maxModelTokens exampleApi - api_maxResponseTokens exampleApi"
      by code_simp
    moreover have "getTokenCount exampleApi (buildPrompt (systemEntries exampleApi ?opts
            @ map parentEntry (rev (take (Suc (Suc 0)) [earlierAnswer, earlierQuestion]))
            @ newTurn ''two?'' (Text ''two?'') ?opts))
          \<le> api_maxModelTokens exampleApi - api_maxResponseTokens exampleApi"
      by code_simp
    ultimately show ?thesis
      by (simp only: list.size all_le_Suc One_nat_def add_Suc_right add_0_right le_zero_eq
          simp_thms)
  qed
  have fuel: "length [earlierAnswer, earlierQuestion] < (3::nat)" by simp
  have eq: "\<lparr>messages = systemEntries exampleApi ?opts
                @ map parentEntry (rev [earlierAnswer, earlierQuestion])
                @ newTurn ''two?'' (Text ''two?'') ?opts,
             maxTokens = responseBudget exampleApi
               (getTokenCount exampleApi (buildPrompt (systemEntries exampleApi ?opts
                  @ map parentEntry (rev [earlierAnswer, earlierQuestion])
                  @ newTurn ''two?'' (Text ''two?'') ?opts))),
             numTokens = getTokenCount exampleApi (buildPrompt (systemEntries exampleApi ?opts
                  @ map parentEntry (rev [earlierAnswer, earlierQuestion])
                  @ newTurn ''two?'' (Text ''two?'') ?opts)),
             imgPath = []\<rparr>
          = \<lparr>messages =
                   [systemEntryS,
                    \<lparr>entry_role = ''user'', entry_content = Text ''one?'', entry_name = None\<rparr>,
                    \<lparr>entry_role = ''assistant'', entry_content = Text ''1'', entry_name = None\<rparr>,
                    \<lparr>entry_role = ''user'', entry_content = Text ''two?'', entry_name = None\<rparr>],
                  maxTokens = 1000, numTokens = 51, imgPath = []\<rparr>"
    by code_simp
  show ?thesis
    using buildMessages_whole_chain[OF uc chain slack fuel] unfolding eq .
qed

section \<open>The calls of sendMessage\<close>

lemma userContent_TypeError:
  assumes "includes_str t imageMarker"
    and "opt_completionParams opts = None \<or> matchParen t = None"
  shows "userContent api t opts = Inl TypeError"
  using assms by (auto simp: userContent_def Let_def split: option.splits)

text \<open>A call that returns, taken apart: either the builder failed and nothing was sent, or
  the request went out and outcome, store and progress follow from the settled exchange.\<close>

lemma sendMessage_Some:
  assumes "sendMessage fuel api transport uuids st t opts = Some res"
  obtains (build_error) e where "buildMessages fuel api st t opts = Some (Inl e)"
      and "res = \<lparr>outcome = Failed e, store = st, sent = None, reported = []\<rparr>"
  | (exchange) built opts' body fin where
        "buildMessages fuel api st t opts = Some (Inr (built, opts'))"
      and "body = requestBody api built opts'
             (case opt_stream opts of None \<Rightarrow> opt_onProgress opts | Some b \<Rightarrow> b)
             (opt_abortSignal opts \<or> ownAbortController opts)"
      and "fin = dispatch transport body (imgPath built) (opt_onProgress opts)
                   (placeholderMessage (resultIdOf uuids opts) (messageIdOf uuids opts) opts)"
      and "sent res = Some body"
      and "reported res = progress fin"
      and "outcome res =
             (case settled fin of
                Some (Resolved message) \<Rightarrow> Fulfilled (estimateUsage api (numTokens built) message)
              | Some (Rejected e) \<Rightarrow> Failed e
              | None \<Rightarrow> Pending)"
      and "store res =
             (case settled fin of
                Some (Resolved message) \<Rightarrow>
                  api_upsertMessage api (estimateUsage api (numTokens built) message)
                    (api_upsertMessage api (userMessage (messageIdOf uuids opts) t opts) st)
              | Some (Rejected e) \<Rightarrow> st
              | None \<Rightarrow> st)"
proof (cases "buildMessages fuel api st t opts")
  case None
  with assms show ?thesis by (simp add: sendMessage_def Let_def)
next
  case (Some b)
  show ?thesis
  proof (cases b)
    case (Inl e)
    with Some assms build_error show ?thesis by (simp add: sendMessage_def Let_def)
  next
    case (Inr p)
    obtain built opts' where p: "p = (built, opts')" by (cases p)
    let ?body = "requestBody api built opts'
             (case opt_stream opts of None \<Rightarrow> opt_onProgress opts | Some b \<Rightarrow> b)
             (opt_abortSignal opts \<or> ownAbortController opts)"
    let ?fin = "dispatch transport ?body (imgPath built) (opt_onProgress opts)
                   (placeholderMessage (resultIdOf uuids opts) (messageIdOf uuids opts) opts)"
    from assms Some Inr p
    have res: "res = (case settled ?fin of
                Some (Resolved message) \<Rightarrow>
                  \<lparr>outcome = Fulfilled (estimateUsage api (numTokens built) message),
                   store = api_upsertMessage api (estimateUsage api (numTokens built) message)
                             (api_upsertMessage api (userMessage (messageIdOf uuids opts) t opts) st),
                   sent = Some ?body, reported = progress ?fin\<rparr>
              | Some (Rejected e) \<Rightarrow>
                  \<lparr>outcome = Failed e, store = st, sent = Some ?body, reported = progress ?fin\<rparr>
              | None \<Rightarrow>
                  \<lparr>outcome = Pending, store = st, sent = Some ?body, reported = progress ?fin\<rparr>)"
      by (simp add: sendMessage_def Let_def split: option.splits Settlement.splits)
    show ?thesis
    proof (rule exchange[of built opts' ?body ?fin])
      show "buildMessages fuel api st t opts = Some (Inr (built, opts'))"
        using Some Inr p by simp
    qed (simp_all add: res split: option.splits Settlement.splits)
  qed
qed

text \<open>A call returns once the fuel exceeds the length of the chain.\<close>

lemma sendMessage_returns:
  assumes "ancestorChain (api_getMessageById api st) (opt_parentMessageId opts) as"
    and "length as < fuel"
  shows "\<exists>res. sendMessage fuel api transport uuids st t opts = Some res"
proof -
  from buildMessages_returns[OF assms] obtain r
    where "buildMessages fuel api st t opts = Some r" by blast
  then show ?thesis
    by (simp add: sendMessage_def Let_def split: sum.splits prod.splits option.splits
        Settlement.splits)
qed

lemma estimateUsage_fields:
  "msgText (estimateUsage api n m) = msgText m"
  "role (estimateUsage api n m) = role m"
  "parentMessageId (estimateUsage api n m) = parentMessageId m"
  "msgId (estimateUsage api n m) = msgId m"
  by (simp_all add: estimateUsage_def Let_def split: option.splits)

section \<open>The streaming callback\<close>

lemma settle_settled: "settle (Some x) y = Some x"
  by (simp add: settle_def)

lemma settle_unsettled: "settle None y = Some y"
  by (simp add: settle_def)

lemma onMessage_settled:
  "settled s = Some x \<Longrightarrow> settled (onMessage img p d s) = Some x"
  by (cases d) (simp_all add: onMessage_def Let_def settle_settled split: list.splits option.splits)





lemma onMessage_Done:
  "settled (onMessage img p Done s)
     = settle (settled s) (Resolved ((result s)\<lparr>msgText := trim (msgText (result s))\<rparr>))"
  by (simp add: onMessage_def Let_def)



text \<open>No event changes the parent link of the assistant message, and both branches keep the
  exchange linked to the parent of the placeholder.\<close>

lemma onMessage_parent:
  "parentMessageId (result (onMessage img p d s)) = parentMessageId (result s)"
  by (cases d) (simp_all add: onMessage_def Let_def split: list.splits option.splits)

lemma onMessage_unsettled:
  assumes "settled s = None" and "settled (onMessage img p d s) = Some (Resolved m)"
  shows "parentMessageId m = parentMessageId (result s)"
proof (cases d)
  case Done
  with assms show ?thesis
    by (simp add: onMessage_Done settle_unsettled) auto
next
  case (Frame response)
  with assms show ?thesis
    by (simp add: onMessage_def Let_def settle_unsettled split: list.splits option.splits)
next
  case Malformed
  with assms show ?thesis
    by (simp add: onMessage_def settle_unsettled)
qed

lemma onMessage_progress:
  assumes "m \<in> set (progress (onMessage img p d s))"
  shows "m \<in> set (progress s) \<or> parentMessageId m = parentMessageId (result s)"
proof (cases d)
  case Done
  with assms show ?thesis by (simp add: onMessage_def Let_def)
next
  case (Frame response)
  show ?thesis
  proof (cases "dr_choices response")
    case Nil
    with assms Frame show ?thesis by (simp add: onMessage_def Let_def)
  next
    case (Cons choice others)
    show ?thesis
    proof (cases "dc_delta choice")
      case None
      with assms Frame Cons show ?thesis by (simp add: onMessage_def Let_def)
    next
      case (Some dl)
      have "progress (onMessage img p d s) =
            (if p then progress s @ [result (onMessage img p d s)] else progress s)"
        using Frame Cons Some by (simp add: onMessage_def Let_def)
      with assms onMessage_parent[of img p d s] show ?thesis
        by (cases p) auto
    qed
  qed
next
  case Malformed
  with assms show ?thesis by (simp add: onMessage_def)
qed

lemma onMessage_linked:
  assumes "linked pid s"
  shows "linked pid (onMessage img p d s)"
proof -
  from assms have r: "parentMessageId (result s) = pid"
    and st: "\<And>m. settled s = Some (Resolved m) \<Longrightarrow> parentMessageId m = pid"
    and pr: "\<And>m. m \<in> set (progress s) \<Longrightarrow> parentMessageId m = pid"
    by (simp_all add: linked_def)
  have "parentMessageId (result (onMessage img p d s)) = pid"
    using r by (simp add: onMessage_parent)
  moreover have "parentMessageId m = pid"
    if "settled (onMessage img p d s) = Some (Resolved m)" for m
  proof (cases "settled s")
    case None
    from onMessage_unsettled[OF None that] r show ?thesis by simp
  next
    case (Some x)
    from onMessage_settled[OF Some, of img p d] that have "x = Resolved m" by simp
    with Some st show ?thesis by simp
  qed
  moreover have "parentMessageId m = pid" if "m \<in> set (progress (onMessage img p d s))" for m
    using onMessage_progress[OF that] pr r by auto
  ultimately show ?thesis by (simp add: linked_def)
qed

lemma foldl_onMessage_linked:
  "linked pid s \<Longrightarrow> linked pid (foldl (\<lambda>s d. onMessage img p d s) s ds)"
  by (induction ds arbitrary: s) (simp_all add: onMessage_linked)

lemma runStream_linked: "linked (parentMessageId ph) (runStream img p answer ph)"
proof -
  let ?s = "foldl (\<lambda>s d. onMessage img p d s) \<lparr>result = ph, settled = None, progress = []\<rparr>
              (fst answer)"
  have "linked (parentMessageId ph) \<lparr>result = ph, settled = None, progress = []\<rparr>"
    by (simp add: linked_def)
  then have l: "linked (parentMessageId ph) ?s"
    by (rule foldl_onMessage_linked)
  have "linked (parentMessageId ph) (?s\<lparr>settled := settle (settled ?s) (Rejected TransportFailure)\<rparr>)"
  proof (cases "settled ?s")
    case None
    with l show ?thesis by (simp add: linked_def settle_unsettled)
  next
    case (Some x)
    with l show ?thesis by (simp add: linked_def settle_settled)
  qed
  with l show ?thesis
    by (simp add: runStream_def Let_def)
qed

lemma runBuffered_linked:
  assumes "runBuffered answer ph = Resolved m"
  shows "parentMessageId m = parentMessageId ph"
proof (cases answer)
  case FetchThrows
  with assms show ?thesis by (simp add: runBuffered_def)
next
  case (FetchResponse res)
  show ?thesis
  proof (cases "res_ok res")
    case False
    with assms FetchResponse show ?thesis by (simp add: runBuffered_def)
  next
    case True
    show ?thesis
    proof (cases "res_json res")
      case None
      with assms FetchResponse True show ?thesis by (simp add: runBuffered_def)
    next
      case (Some response)
      show ?thesis
      proof (cases "cr_choices response")
        case Nil
        with assms FetchResponse True Some show ?thesis by (simp add: runBuffered_def Let_def)
      next
        case (Cons c cs)
        with assms FetchResponse True Some show ?thesis
          by (cases c) (auto simp: runBuffered_def Let_def split: if_splits)
      qed
    qed
  qed
qed

lemma dispatch_linked: "linked (parentMessageId ph) (dispatch transport body img p ph)"
proof (cases "req_stream body")
  case True
  then show ?thesis by (simp add: dispatch_def runStream_linked)
next
  case False
  then show ?thesis
    using runBuffered_linked[of "fetch transport body" ph]
    by (simp add: dispatch_def linked_def)
qed

section \<open>Claims about sendMessage\<close>

lemma map_option_SomeE:
  assumes "map_option f x = Some y"
  obtains z where "x = Some z" and "f z = y"
  using assms by (cases x) auto





text \<open>
  Claim C7. In buffered mode with a response from the transport: a non-success status fails the
  call with a \<open>ChatGPTError\<close> whose message ends with the body text and whose status code and
  status text are the response's; a success body without choices fails it with an \<open>Error\<close>; a
  success body whose first choice has a message fulfils it with the content of that message as
  text and with its role, the role of the placeholder staying when the message has none.
\<close>

theorem sendMessage_buffered:
  assumes send: "sendMessage fuel api transport uuids st t opts = Some res"
    and body: "sent res = Some body"
    and buffered: "\<not> req_stream body"
    and answer: "fetch transport body = FetchResponse resp"
  shows "(\<not> res_ok resp \<longrightarrow>
            outcome res = Failed (ChatGPTError
              (''OpenAI error '' @
                 (if res_status resp \<noteq> 0 then numberToString (res_status resp)
                  else res_statusText resp) @ '': '' @ res_text resp)
              (res_status resp) (res_statusText resp)))
       \<and> (\<forall>response. res_ok resp \<and> res_json resp = Some response \<and> cr_choices response = [] \<longrightarrow>
            outcome res = Failed (Error (''OpenAI error: '' @ errorDetailText (cr_detail response))))
       \<and> (\<forall>response message others.
            res_ok resp \<and> res_json resp = Some response
              \<and> cr_choices response = Some message # others \<longrightarrow>
            (\<exists>m. outcome res = Fulfilled m \<and> msgText m = rm_content message
               \<and> role m = (if truthy (rm_role message) then the (rm_role message)
                            else ''assistant'')))"
  using send
proof (cases rule: sendMessage_Some)
  case (build_error e)
  with body show ?thesis by simp
next
  case (exchange built opts' body' fin)
  let ?ph = "placeholderMessage (resultIdOf uuids opts) (messageIdOf uuids opts) opts"
  from exchange(4) body have bb: "body' = body" by simp
  have fin: "settled fin = Some (runBuffered (FetchResponse resp) ?ph)"
    using exchange(3) bb buffered answer by (simp add: dispatch_def)
  note out = exchange(6)[unfolded fin]
  have ph: "role ?ph = ''assistant''" by (simp add: placeholderMessage_def)
  have one: "outcome res = Failed (ChatGPTError
              (''OpenAI error '' @
                 (if res_status resp \<noteq> 0 then numberToString (res_status resp)
                  else res_statusText resp) @ '': '' @ res_text resp)
              (res_status resp) (res_statusText resp))" if "\<not> res_ok resp"
    using that by (simp add: out runBuffered_def)
  have two: "outcome res = Failed (Error (''OpenAI error: '' @ errorDetailText (cr_detail response)))"
    if "res_ok resp" "res_json resp = Some response" "cr_choices response = []" for response
    using that by (simp add: out runBuffered_def Let_def)
  have three: "\<exists>m. outcome res = Fulfilled m \<and> msgText m = rm_content message
               \<and> role m = (if truthy (rm_role message) then the (rm_role message)
                            else ''assistant'')"
    if "res_ok resp" "res_json resp = Some response" "cr_choices response = Some message # others"
    for response message others
    using that ph by (simp add: out runBuffered_def Let_def estimateUsage_fields)
  from one two three show ?thesis by blast
qed

text \<open>A 404 with a body, a success without choices, and a success with one choice.\<close>

theorem sendMessage_buffered_witness:
  "map_option outcome
     (sendMessage 1 exampleApi (bufferedTransport notFound) exampleUuids Map.empty ''hello''
        noOptions)
     = Some (Failed (ChatGPTError ''OpenAI error 404: no such model'' 404 ''Not Found''))
   \<and> map_option outcome
     (sendMessage 1 exampleApi (bufferedTransport (okResponse noChoices)) exampleUuids Map.empty
        ''hello'' noOptions)
     = Some (Failed (Error ''OpenAI error: overloaded''))
   \<and> map_option outcome
     (sendMessage 1 exampleApi (bufferedTransport (okResponse oneChoice)) exampleUuids Map.empty
        ''hello'' noOptions)
     = Some (Fulfilled hiAnswer)
   \<and> msgText hiAnswer = ''Hi there'' \<and> role hiAnswer = ''assistant''"
proof -
  have st: "\<not> req_stream (helloRequest False)" by (simp add: helloRequest_def)
  \<comment> \<open>a non-success status\<close>
  have "map_option sent
     (sendMessage 1 exampleApi (bufferedTransport notFound) exampleUuids Map.empty ''hello''
        noOptions) = Some (Some (helloRequest False))"
    by code_simp
  then obtain r1 where r1: "sendMessage 1 exampleApi (bufferedTransport notFound) exampleUuids
      Map.empty ''hello'' noOptions = Some r1" and b1: "sent r1 = Some (helloRequest False)"
    by (rule map_option_SomeE)
  have a1: "fetch (bufferedTransport notFound) (helloRequest False) = FetchResponse notFound"
    by (simp add: bufferedTransport_def)
  have n1: "\<not> res_ok notFound" by (simp add: notFound_def)
  have "outcome r1 = Failed (ChatGPTError
              (''OpenAI error '' @
                 (if res_status notFound \<noteq> 0 then numberToString (res_status notFound)
                  else res_statusText notFound) @ '': '' @ res_text notFound)
              (res_status notFound) (res_statusText notFound))"
    using sendMessage_buffered[OF r1 b1 st a1] n1 by (elim conjE) (erule (1) mp)
  moreover have "ChatGPTError
              (''OpenAI error '' @
                 (if res_status notFound \<noteq> 0 then numberToString (res_status notFound)
                  else res_statusText notFound) @ '': '' @ res_text notFound)
              (res_status notFound) (res_statusText notFound)
            = ChatGPTError ''OpenAI error 404: no such model'' 404 ''Not Found''"
    by code_simp
  ultimately have o1: "map_option outcome
     (sendMessage 1 exampleApi (bufferedTransport notFound) exampleUuids Map.empty ''hello''
        noOptions)
     = Some (Failed (ChatGPTError ''OpenAI error 404: no such model'' 404 ''Not Found''))"
    by (simp only: r1 option.map)
  \<comment> \<open>a success without choices\<close>
  have "map_option sent
     (sendMessage 1 exampleApi (bufferedTransport (okResponse noChoices)) exampleUuids Map.empty
        ''hello'' noOptions) = Some (Some (helloRequest False))"
    by code_simp
  then obtain r2 where r2: "sendMessage 1 exampleApi (bufferedTransport (okResponse noChoices))
      exampleUuids Map.empty ''hello'' noOptions = Some r2"
    and b2: "sent r2 = Some (helloRequest False)"
    by (rule map_option_SomeE)
  have a2: "fetch (bufferedTransport (okResponse noChoices)) (helloRequest False)
            = FetchResponse (okResponse noChoices)"
    by (simp add: bufferedTransport_def)
  have n2: "res_ok (okResponse noChoices) \<and> res_json (okResponse noChoices) = Some noChoices
            \<and> cr_choices noChoices = []"
    by (simp add: okResponse_def noChoices_def)
  have "outcome r2 = Failed (Error (''OpenAI error: '' @ errorDetailText (cr_detail noChoices)))"
    using sendMessage_buffered[OF r2 b2 st a2] n2 by (elim conjE allE[of _ noChoices]) (erule mp, intro conjI)
  moreover have "Error (''OpenAI error: '' @ errorDetailText (cr_detail noChoices))
                 = Error ''OpenAI error: overloaded''"
    by code_simp
  ultimately have o2: "map_option outcome
     (sendMessage 1 exampleApi (bufferedTransport (okResponse noChoices)) exampleUuids Map.empty
        ''hello'' noOptions)
     = Some (Failed (Error ''OpenAI error: overloaded''))"
    by (simp only: r2 option.map)
  \<comment> \<open>a success with a choice\<close>
  have o3: "map_option outcome
     (sendMessage 1 exampleApi (bufferedTransport (okResponse oneChoice)) exampleUuids Map.empty
        ''hello'' noOptions)
     = Some (Fulfilled hiAnswer)"
    by code_simp
  then obtain r3 where r3: "sendMessage 1 exampleApi (bufferedTransport (okResponse oneChoice))
      exampleUuids Map.empty ''hello'' noOptions = Some r3"
    and f3: "outcome r3 = Fulfilled hiAnswer"
    by (rule map_option_SomeE)
  have "map_option sent
     (sendMessage 1 exampleApi (bufferedTransport (okResponse oneChoice)) exampleUuids Map.empty
        ''hello'' noOptions) = Some (Some (helloRequest False))"
    by code_simp
  then have b3: "sent r3 = Some (helloRequest False)"
    by (simp only: r3 option.map option.inject)
  have a3: "fetch (bufferedTransport (okResponse oneChoice)) (helloRequest False)
            = FetchResponse (okResponse oneChoice)"
    by (simp add: bufferedTransport_def)
  have n3: "res_ok (okResponse oneChoice) \<and> res_json (okResponse oneChoice) = Some oneChoice
            \<and> cr_choices oneChoice
                = Some \<lparr>rm_content = ''Hi there'', rm_role = Some ''assistant''\<rparr> # []"
    by (simp add: okResponse_def oneChoice_def)
  have "\<exists>m. outcome r3 = Fulfilled m
          \<and> msgText m = rm_content \<lparr>rm_content = ''Hi there'', rm_role = Some ''assistant''\<rparr>
          \<and> role m = (if truthy (rm_role \<lparr>rm_content = ''Hi there'', rm_role = Some ''assistant''\<rparr>)
                       then the (rm_role \<lparr>rm_content = ''Hi there'', rm_role = Some ''assistant''\<rparr>)
                       else ''assistant'')"
    using sendMessage_buffered[OF r3 b3 st a3] n3
    by (elim conjE allE[of _ oneChoice]
          allE[of _ "\<lparr>rm_content = ''Hi there'', rm_role = Some ''assistant''\<rparr>"]
          allE[of _ "[]"]) (erule mp, intro conjI)
  then have t3: "msgText hiAnswer = ''Hi there'' \<and> role hiAnswer = ''assistant''"
    by (simp add: f3 truthy_def)
  show ?thesis by (rule conjI[OF o1 conjI[OF o2 conjI[OF o3 t3]]])
qed

text \<open>
  Claim C9. The placeholder is an assistant message with an empty text whose \<open>parentMessageId\<close>
  is the id of the user message of the call (the caller's \<open>messageId\<close>, else the first fresh
  UUID); neither mode changes it, so the assistant message of a fulfilled call, written to the
  store behind the user message, and every message reported to the progress callback carry
  that id as \<open>parentMessageId\<close>.
\<close>

theorem sendMessage_pair_linkage:
  assumes send: "sendMessage fuel api transport uuids st t opts = Some res"
  shows "role (placeholderMessage (resultIdOf uuids opts) (messageIdOf uuids opts) opts)
           = ''assistant''
       \<and> msgText (placeholderMessage (resultIdOf uuids opts) (messageIdOf uuids opts) opts) = []
       \<and> parentMessageId (placeholderMessage (resultIdOf uuids opts) (messageIdOf uuids opts) opts)
           = Some (messageIdOf uuids opts)
       \<and> msgId (userMessage (messageIdOf uuids opts) t opts) = messageIdOf uuids opts
       \<and> messageIdOf uuids opts = (case opt_messageId opts of None \<Rightarrow> uuids 0 | Some i \<Rightarrow> i)
       \<and> (\<forall>m. outcome res = Fulfilled m \<longrightarrow>
             parentMessageId m = Some (messageIdOf uuids opts)
             \<and> store res = api_upsertMessage api m
                  (api_upsertMessage api (userMessage (messageIdOf uuids opts) t opts) st))
       \<and> (\<forall>m\<in>set (reported res). parentMessageId m = Some (messageIdOf uuids opts))"
proof -
  let ?ph = "placeholderMessage (resultIdOf uuids opts) (messageIdOf uuids opts) opts"
  have ph: "role ?ph = ''assistant''" "msgText ?ph = []"
    "parentMessageId ?ph = Some (messageIdOf uuids opts)"
    by (simp_all add: placeholderMessage_def)
  have um: "msgId (userMessage (messageIdOf uuids opts) t opts) = messageIdOf uuids opts"
    by (simp add: userMessage_def)
  have mi: "messageIdOf uuids opts = (case opt_messageId opts of None \<Rightarrow> uuids 0 | Some i \<Rightarrow> i)"
    by (simp add: messageIdOf_def)
  have rest: "(\<forall>m. outcome res = Fulfilled m \<longrightarrow>
             parentMessageId m = Some (messageIdOf uuids opts)
             \<and> store res = api_upsertMessage api m
                  (api_upsertMessage api (userMessage (messageIdOf uuids opts) t opts) st))
       \<and> (\<forall>m\<in>set (reported res). parentMessageId m = Some (messageIdOf uuids opts))"
    using send
  proof (cases rule: sendMessage_Some)
    case (build_error e)
    then show ?thesis by simp
  next
    case (exchange built opts' body fin)
    have l: "linked (Some (messageIdOf uuids opts)) fin"
      unfolding exchange(3) using dispatch_linked[of ?ph transport body "imgPath built" "opt_onProgress opts"]
      by (simp add: ph)
    show ?thesis
    proof (cases "settled fin")
      case None
      with exchange l show ?thesis by (simp add: linked_def)
    next
      case (Some x)
      show ?thesis
      proof (cases x)
        case (Resolved m)
        with Some exchange l show ?thesis
          by (simp add: linked_def estimateUsage_fields)
      next
        case (Rejected e)
        with Some exchange l show ?thesis by (simp add: linked_def)
      qed
    qed
  qed
  from ph um mi rest show ?thesis by blast
qed

text \<open>The streamed answer to \<open>hello\<close> points to the fresh id of the question.\<close>

theorem sendMessage_pair_linkage_witness:
  "map_option outcome
     (sendMessage 1 exampleApi helloStream exampleUuids Map.empty ''hello'' streamOptions)
     = Some (Fulfilled helloAnswer)
   \<and> messageIdOf exampleUuids streamOptions = ''uuid-0''
   \<and> parentMessageId helloAnswer = Some ''uuid-0''
   \<and> msgId (userMessage ''uuid-0'' ''hello'' streamOptions) = ''uuid-0''
   \<and> map_option store
     (sendMessage 1 exampleApi helloStream exampleUuids Map.empty ''hello'' streamOptions)
     = Some (defaultUpsertMessage helloAnswer
              (defaultUpsertMessage (userMessage ''uuid-0'' ''hello'' streamOptions) Map.empty))
   \<and> map_option (map parentMessageId \<circ> reported)
     (sendMessage 1 exampleApi helloStream exampleUuids Map.empty ''hello'' streamOptions)
     = Some [Some ''uuid-0'', Some ''uuid-0'']"
proof -
  have o: "map_option outcome
     (sendMessage 1 exampleApi helloStream exampleUuids Map.empty ''hello'' streamOptions)
     = Some (Fulfilled helloAnswer)"
    by code_simp
  then obtain r where r: "sendMessage 1 exampleApi helloStream exampleUuids Map.empty ''hello''
      streamOptions = Some r" and f: "outcome r = Fulfilled helloAnswer"
    by (rule map_option_SomeE)
  have i: "messageIdOf exampleUuids streamOptions = ''uuid-0''"
    by code_simp
  have up: "api_upsertMessage exampleApi = defaultUpsertMessage"
    by (simp add: exampleApi_def)
  from sendMessage_pair_linkage[OF r]
  have "\<forall>m. outcome r = Fulfilled m \<longrightarrow>
             parentMessageId m = Some (messageIdOf exampleUuids streamOptions)
             \<and> store r = api_upsertMessage exampleApi m
                  (api_upsertMessage exampleApi
                     (userMessage (messageIdOf exampleUuids streamOptions) ''hello'' streamOptions)
                     Map.empty)"
    by (elim conjE)
  then have "parentMessageId helloAnswer = Some (messageIdOf exampleUuids streamOptions)
             \<and> store r = api_upsertMessage exampleApi helloAnswer
                  (api_upsertMessage exampleApi
                     (userMessage (messageIdOf exampleUuids streamOptions) ''hello'' streamOptions)
                     Map.empty)"
    using f by (elim allE[of _ helloAnswer]) (erule mp)
  then have p: "parentMessageId helloAnswer = Some ''uuid-0''"
    and s: "store r = defaultUpsertMessage helloAnswer
              (defaultUpsertMessage (userMessage ''uuid-0'' ''hello'' streamOptions) Map.empty)"
    by (simp_all only: i up)
  have u: "msgId (userMessage ''uuid-0'' ''hello'' streamOptions) = ''uuid-0''"
    by (simp add: userMessage_def)
  have g: "map_option store
     (sendMessage 1 exampleApi helloStream exampleUuids Map.empty ''hello'' streamOptions)
     = Some (defaultUpsertMessage helloAnswer
              (defaultUpsertMessage (userMessage ''uuid-0'' ''hello'' streamOptions) Map.empty))"
    by (subst r, subst option.map, subst s) (rule refl)
  have h: "map_option (map parentMessageId \<circ> reported)
     (sendMessage 1 exampleApi helloStream exampleUuids Map.empty ''hello'' streamOptions)
     = Some [Some ''uuid-0'', Some ''uuid-0'']"
    by code_simp
  show ?thesis by (rule conjI[OF o conjI[OF i conjI[OF p conjI[OF u conjI[OF g h]]]]])
qed

text \<open>
  Claim C10. A text with the image marker fails the call with a \<open>TypeError\<close> in the builder,
  with no request sent and the store untouched, when the options have no \<open>completionParams\<close>
  and also when the text has no parenthesis group for the regular expression to match.
\<close>

theorem sendMessage_image_marker_TypeError:
  assumes "includes_str t imageMarker"
    and "opt_completionParams opts = None \<or> matchParen t = None"
  shows "sendMessage fuel api transport uuids st t opts =
         Some \<lparr>outcome = Failed TypeError, store = st, sent = None, reported = []\<rparr>"
proof -
  have "buildMessages fuel api st t opts = Some (Inl TypeError)"
    using userContent_TypeError[of t opts api, OF assms] by (simp add: buildMessages_def Let_def)
  then show ?thesis by (simp add: sendMessage_def Let_def)
qed

text \<open>A marked text without \<open>completionParams\<close>, and a marked text without a parenthesis.\<close>

theorem sendMessage_image_marker_TypeError_witness:
  "includes_str (''what is this'' @ imageMarker @ ''(/sysfiles/1.png)'') imageMarker
   \<and> opt_completionParams noOptions = None
   \<and> sendMessage 1 exampleApi helloStream exampleUuids Map.empty
        (''what is this'' @ imageMarker @ ''(/sysfiles/1.png)'') noOptions
      = Some \<lparr>outcome = Failed TypeError, store = Map.empty, sent = None, reported = []\<rparr>
   \<and> includes_str (''what is this'' @ imageMarker) imageMarker
   \<and> matchParen (''what is this'' @ imageMarker) = None
   \<and> sendMessage 1 exampleApi helloStream exampleUuids Map.empty
        (''what is this'' @ imageMarker)
        (noOptions\<lparr>opt_completionParams := Some \<lparr>cp_model = None, cp_max_tokens = None\<rparr>\<rparr>)
      = Some \<lparr>outcome = Failed TypeError, store = Map.empty, sent = None, reported = []\<rparr>"
proof -
  have a: "includes_str (''what is this'' @ imageMarker @ ''(/sysfiles/1.png)'') imageMarker"
    by code_simp
  have b: "opt_completionParams noOptions = None"
    by (simp add: noOptions_def)
  have c: "includes_str (''what is this'' @ imageMarker) imageMarker"
    by code_simp
  have d: "matchParen (''what is this'' @ imageMarker) = None"
    by code_simp
  note e = sendMessage_image_marker_TypeError[OF a disjI1[OF b]]
  note f = sendMessage_image_marker_TypeError[OF c disjI2[OF d]]
  show ?thesis
    by (rule conjI[OF a conjI[OF b conjI[OF e conjI[OF c conjI[OF d f]]]]])
qed

end
